theory Spec2Isabelle
  imports Main "HOL-Library.AList"
begin

section \<open>The date-time primitive\<close>

text \<open>
  The helpers of \<^verbatim>\<open>utils/\<close> are written against the Arrow date-time library, which is
  not part of the repository. This section fixes the model of the library that the
  embedding of the helpers rests on.

  \<^item> A naive (wall-clock) date-time is the number of microseconds since
    0001-01-01T00:00:00 on the proleptic Gregorian calendar; the calendar fields are
    read off that number with the ordinal conversions of the standard library
    (\<open>ymd2ord\<close>, \<open>ord2ymd\<close>).
  \<^item> The time line is not bounded: the library's restriction to the years 1..9999
    (a \<^verbatim>\<open>ValueError\<close> or \<^verbatim>\<open>OverflowError\<close> beyond them) is not modelled. Month, day,
    hour, minute and second arguments are validated as the library validates them.
  \<^item> A time zone is what the \<^verbatim>\<open>tzinfo\<close> interface exposes: its printed form, the UTC
    offset at a wall-clock reading and the conversion from a UTC reading. Folds and
    gaps of daylight-saving transitions are not modelled.
  \<^item> The pattern language of \<^verbatim>\<open>format\<close> and the time-zone name parser are parameters
    (\<open>fmt\<close>, \<open>parse\<close>) of the operations that use them; so is the reading of the
    system clock (\<open>clock\<close>) from which \<^verbatim>\<open>arrow.utcnow()\<close> and \<^verbatim>\<open>arrow.now(tz)\<close> are made.
  \<^item> \<^verbatim>\<open>timestamp()\<close> is the exact number of microseconds since the epoch; the library
    returns that number of seconds as a float.
\<close>

subsection \<open>Errors\<close>

datatype error = ValueError string | ParserError string

fun error_str :: "error \<Rightarrow> string" where
  "error_str (ValueError msg) = msg"
| "error_str (ParserError msg) = msg"

subsection \<open>The proleptic Gregorian calendar\<close>

definition is_leap :: "int \<Rightarrow> bool" where
  "is_leap year \<longleftrightarrow> year mod 4 = 0 \<and> (year mod 100 \<noteq> 0 \<or> year mod 400 = 0)"

definition days_before_year :: "int \<Rightarrow> int" where
  "days_before_year year = (let y = year - 1 in y * 365 + y div 4 - y div 100 + y div 400)"

definition DAYS_IN_MONTH :: "int list" where
  "DAYS_IN_MONTH = [-1, 31, 28, 31, 30, 31, 30, 31, 31, 30, 31, 30, 31]"

definition DAYS_BEFORE_MONTH :: "int list" where
  "DAYS_BEFORE_MONTH = [-1, 0, 31, 59, 90, 120, 151, 181, 212, 243, 273, 304, 334]"

definition days_in_month :: "int \<Rightarrow> int \<Rightarrow> int" where
  "days_in_month year month =
     (if month = 2 \<and> is_leap year then 29 else DAYS_IN_MONTH ! nat month)"

definition days_before_month :: "int \<Rightarrow> int \<Rightarrow> int" where
  "days_before_month year month =
     DAYS_BEFORE_MONTH ! nat month + (if month > 2 \<and> is_leap year then 1 else 0)"

definition ymd2ord :: "int \<Rightarrow> int \<Rightarrow> int \<Rightarrow> int" where
  "ymd2ord year month day = days_before_year year + days_before_month year month + day"

text \<open>Month and day of the \<open>n\<close>-th day (from 0) of a leap or common year.\<close>

definition month_day_of :: "bool \<Rightarrow> int \<Rightarrow> int \<times> int" where
  "month_day_of leapyear n =
     (let month = (n + 50) div 32;
          preceding = DAYS_BEFORE_MONTH ! nat month + (if month > 2 \<and> leapyear then 1 else 0)
      in if preceding > n
         then (month - 1,
               n - (preceding - (DAYS_IN_MONTH ! nat (month - 1)
                                 + (if month - 1 = 2 \<and> leapyear then 1 else 0))) + 1)
         else (month, n - preceding + 1))"

definition ord2ymd :: "int \<Rightarrow> int \<times> int \<times> int" where
  "ord2ymd ordinal =
     (let n = ordinal - 1;
          n400 = n div 146097; n = n mod 146097;
          n100 = n div 36524; n = n mod 36524;
          n4 = n div 1461; n = n mod 1461;
          n1 = n div 365; n = n mod 365;
          year = n400 * 400 + 1 + n100 * 100 + n4 * 4 + n1
      in if n1 = 4 \<or> n100 = 4 then (year - 1, 12, 31)
         else (year, month_day_of (n1 = 3 \<and> (n4 \<noteq> 24 \<or> n100 = 3)) n))"

subsection \<open>Time zones and Arrow values\<close>

record timezone =
  tz_str :: string
  utcoffset :: "int \<Rightarrow> int"
  fromutc :: "int \<Rightarrow> int"

record arrow =
  wall :: int
  tzinfo :: timezone

text \<open>A zone with a constant offset (in microseconds), and UTC.\<close>

definition tz_fixed :: "string \<Rightarrow> int \<Rightarrow> timezone" where
  "tz_fixed name off = \<lparr>tz_str = name, utcoffset = (\<lambda>w. off), fromutc = (\<lambda>u. u + off)\<rparr>"

definition tz_utc :: timezone where
  "tz_utc = tz_fixed ''UTC'' 0"

text \<open>
  The guarantee a zone of the time-zone database gives: the local reading of a UTC
  instant has the offset that produced it.
\<close>

definition tz_consistent :: "timezone \<Rightarrow> bool" where
  "tz_consistent z \<longleftrightarrow> (\<forall>u. utcoffset z (fromutc z u) = fromutc z u - u)"

definition US_PER_DAY :: int where
  "US_PER_DAY = 86400000000"

definition EPOCH_US :: int where
  "EPOCH_US = 719162 * US_PER_DAY"

definition mk_wall :: "int \<Rightarrow> int \<Rightarrow> int \<Rightarrow> int \<Rightarrow> int \<Rightarrow> int" where
  "mk_wall ordinal h m s us =
     (ordinal - 1) * US_PER_DAY + h * 3600000000 + m * 60000000 + s * 1000000 + us"

definition toordinal :: "arrow \<Rightarrow> int" where
  "toordinal a = wall a div US_PER_DAY + 1"

definition time_of_day :: "arrow \<Rightarrow> int" where
  "time_of_day a = wall a mod US_PER_DAY"







definition microsecond_of :: "arrow \<Rightarrow> int" where
  "microsecond_of a = time_of_day a mod 1000000"


text \<open>The absolute instant, and the comparison \<^verbatim>\<open>a <= b\<close> of two aware values.\<close>

definition utc_us :: "arrow \<Rightarrow> int" where
  "utc_us a = wall a - utcoffset (tzinfo a) (wall a)"

definition timestamp_us :: "arrow \<Rightarrow> int" where
  "timestamp_us a = utc_us a - EPOCH_US"

definition arrow_le :: "arrow \<Rightarrow> arrow \<Rightarrow> bool" where
  "arrow_le a b \<longleftrightarrow> utc_us a \<le> utc_us b"


text \<open>\<^verbatim>\<open>a.replace(hour=h, minute=m, second=s)\<close>: the date and the microsecond stay.\<close>

definition replace_hms :: "arrow \<Rightarrow> int \<Rightarrow> int \<Rightarrow> int \<Rightarrow> error + arrow" where
  "replace_hms a h m s =
     (if \<not> (0 \<le> h \<and> h < 24) then Inl (ValueError ''hour must be in 0..23'')
      else if \<not> (0 \<le> m \<and> m < 60) then Inl (ValueError ''minute must be in 0..59'')
      else if \<not> (0 \<le> s \<and> s < 60) then Inl (ValueError ''second must be in 0..59'')
      else Inr (a\<lparr>wall := mk_wall (toordinal a) h m s (microsecond_of a)\<rparr>))"

text \<open>\<^verbatim>\<open>a.shift(days=n)\<close>, \<^verbatim>\<open>weeks\<close>, \<^verbatim>\<open>microseconds\<close>: wall-clock arithmetic in the zone of \<open>a\<close>.\<close>

definition shift_days :: "int \<Rightarrow> arrow \<Rightarrow> arrow" where
  "shift_days n a = a\<lparr>wall := wall a + n * US_PER_DAY\<rparr>"

definition shift_weeks :: "int \<Rightarrow> arrow \<Rightarrow> arrow" where
  "shift_weeks n a = shift_days (7 * n) a"


text \<open>
  \<^verbatim>\<open>a.shift(months=n)\<close> and \<^verbatim>\<open>a.shift(years=n)\<close>: the month (year) moves, the day is
  clipped to the length of the month reached, the time of day stays.
\<close>

definition shift_months :: "int \<Rightarrow> arrow \<Rightarrow> arrow" where
  "shift_months n a =
     (case ord2ymd (toordinal a) of (y, m, d) \<Rightarrow>
        let t = y * 12 + (m - 1) + n;
            y' = t div 12;
            m' = t mod 12 + 1;
            d' = min (days_in_month y' m') d
        in a\<lparr>wall := (ymd2ord y' m' d' - 1) * US_PER_DAY + time_of_day a\<rparr>)"

definition shift_years :: "int \<Rightarrow> arrow \<Rightarrow> arrow" where
  "shift_years n a =
     (case ord2ymd (toordinal a) of (y, m, d) \<Rightarrow>
        let y' = y + n;
            d' = min (days_in_month y' m) d
        in a\<lparr>wall := (ymd2ord y' m d' - 1) * US_PER_DAY + time_of_day a\<rparr>)"



text \<open>
  \<^verbatim>\<open>a.to(tz)\<close> and \<^verbatim>\<open>a.replace(tzinfo=tz)\<close> with a zone name: the name is parsed (an
  unknown name raises); \<open>to\<close> keeps the instant and changes the wall clock,
  \<open>replace\<close> keeps the wall clock and changes the zone.
\<close>

definition arrow_to :: "(string \<Rightarrow> error + timezone) \<Rightarrow> arrow \<Rightarrow> string \<Rightarrow> error + arrow" where
  "arrow_to parse a tz =
     (case parse tz of
        Inl e \<Rightarrow> Inl e
      | Inr z \<Rightarrow> Inr \<lparr>wall = fromutc z (utc_us a), tzinfo = z\<rparr>)"

definition replace_tzinfo :: "(string \<Rightarrow> error + timezone) \<Rightarrow> arrow \<Rightarrow> string \<Rightarrow> error + arrow" where
  "replace_tzinfo parse a tz =
     (case parse tz of
        Inl e \<Rightarrow> Inl e
      | Inr z \<Rightarrow> Inr (a\<lparr>tzinfo := z\<rparr>))"

text \<open>
  \<^verbatim>\<open>arrow.utcnow()\<close> and \<^verbatim>\<open>arrow.now(tz)\<close>, given the reading \<open>clock\<close> of the system clock
  (microseconds of UTC since 0001-01-01T00:00:00).
\<close>

definition arrow_utcnow :: "int \<Rightarrow> arrow" where
  "arrow_utcnow clock = \<lparr>wall = clock, tzinfo = tz_utc\<rparr>"

definition arrow_now :: "(string \<Rightarrow> error + timezone) \<Rightarrow> int \<Rightarrow> string \<Rightarrow> error + arrow" where
  "arrow_now parse clock tz =
     (case parse tz of
        Inl e \<Rightarrow> Inl e
      | Inr z \<Rightarrow> Inr \<lparr>wall = fromutc z clock, tzinfo = z\<rparr>)"

section \<open>Date helpers (\<^verbatim>\<open>utils/date_helpers.py\<close>)\<close>

text \<open>
  \<^verbatim>\<open>get_date_range\<close>: the loop appends \<open>current\<close> and only then looks at \<open>step\<close>.
  With an arbitrary zone the comparison need not ever fail, so the loop is a partial
  function: \<open>None\<close> is a run that does not return.
\<close>

partial_function (option) date_range_loop ::
  "arrow \<Rightarrow> arrow \<Rightarrow> string \<Rightarrow> arrow list \<Rightarrow> (error + arrow list) option" where
  "date_range_loop current end_date step dates =
     (if arrow_le current end_date then
        (if step = ''day''
         then date_range_loop (shift_days 1 current) end_date step (dates @ [current])
         else if step = ''week''
         then date_range_loop (shift_weeks 1 current) end_date step (dates @ [current])
         else if step = ''month''
         then date_range_loop (shift_months 1 current) end_date step (dates @ [current])
         else if step = ''year''
         then date_range_loop (shift_years 1 current) end_date step (dates @ [current])
         else Some (Inl (ValueError (''Invalid step: '' @ step))))
      else Some (Inr dates))"

definition get_date_range :: "arrow \<Rightarrow> arrow \<Rightarrow> string \<Rightarrow> (error + arrow list) option" where
  "get_date_range start end_date step = date_range_loop start end_date step []"








section \<open>Formatter registry (\<^verbatim>\<open>utils/formatters.py\<close>)\<close>

text \<open>
  The \<^verbatim>\<open>templates\<close> dictionary of a \<^verbatim>\<open>DateFormatter\<close> is an association list in
  insertion order; \<^verbatim>\<open>templates[name] = pattern\<close> is \<open>AList.update\<close>, which
  overwrites in place or appends.
\<close>

definition DateFormatter_init :: "(string \<times> string) list" where
  "DateFormatter_init =
     [(''short'', ''YYYY-MM-DD''),
      (''long'', ''MMMM DD, YYYY''),
      (''time'', ''HH:mm:ss''),
      (''datetime'', ''YYYY-MM-DD HH:mm:ss''),
      (''iso'', ''YYYY-MM-DDTHH:mm:ssZZ''),
      (''filename'', ''YYYYMMDD_HHmmss''),
      (''log'', ''YYYY-MM-DD HH:mm:ss''),
      (''display'', ''MMMM DD, YYYY [at] h:mm A'')]"

definition format ::
  "(arrow \<Rightarrow> string \<Rightarrow> string) \<Rightarrow> (string \<times> string) list \<Rightarrow> arrow \<Rightarrow> string \<Rightarrow> error + string" where
  "format fmt templates dt template =
     (case map_of templates template of
        None \<Rightarrow> Inl (ValueError (''Unknown template: '' @ template))
      | Some pattern \<Rightarrow> Inr (fmt dt pattern))"

definition add_template ::
  "string \<Rightarrow> string \<Rightarrow> (string \<times> string) list \<Rightarrow> (string \<times> string) list" where
  "add_template name format_string templates = AList.update name format_string templates"

definition list_templates :: "(string \<times> string) list \<Rightarrow> string list" where
  "list_templates templates = map fst templates"

section \<open>Reminders and tasks (\<^verbatim>\<open>utils/schedulers.py\<close>)\<close>

record reminder =
  title :: string
  remind_at :: arrow
  recurring :: bool
  interval :: "string option"
  created_at :: arrow
  active :: bool

text \<open>
  The state of a \<^verbatim>\<open>Reminder\<close> object is its list \<^verbatim>\<open>reminders\<close>; every operation takes
  the list and returns the list it leaves behind.
\<close>

definition Reminder_init :: "reminder list" where
  "Reminder_init = []"

definition add ::
  "int \<Rightarrow> string \<Rightarrow> arrow \<Rightarrow> bool \<Rightarrow> string option \<Rightarrow> reminder list \<Rightarrow> reminder list" where
  "add clock title' remind_at' recurring' interval' reminders =
     reminders @
     [\<lparr>title = title', remind_at = remind_at', recurring = recurring',
       interval = interval', created_at = arrow_utcnow clock, active = True\<rparr>]"

definition list_active :: "reminder list \<Rightarrow> reminder list" where
  "list_active reminders = filter active reminders"

text \<open>
  \<^verbatim>\<open>check_due\<close> appends the stored dictionary itself to \<^verbatim>\<open>due\<close> and then updates it, so
  the caller reads the updated record through \<^verbatim>\<open>due\<close>. The loop returns the due
  records as they are on return, and the list as it is left behind.
\<close>

fun check_due_loop :: "arrow \<Rightarrow> reminder list \<Rightarrow> reminder list \<times> reminder list" where
  "check_due_loop now [] = ([], [])"
| "check_due_loop now (reminder # rest) =
     (case check_due_loop now rest of (due, rest') \<Rightarrow>
        if active reminder \<and> arrow_le (remind_at reminder) now then
          (if \<not> recurring reminder then
             (reminder\<lparr>active := False\<rparr> # due, reminder\<lparr>active := False\<rparr> # rest')
           else if interval reminder = Some ''daily'' then
             (reminder\<lparr>remind_at := shift_days 1 (remind_at reminder)\<rparr> # due,
              reminder\<lparr>remind_at := shift_days 1 (remind_at reminder)\<rparr> # rest')
           else if interval reminder = Some ''weekly'' then
             (reminder\<lparr>remind_at := shift_weeks 1 (remind_at reminder)\<rparr> # due,
              reminder\<lparr>remind_at := shift_weeks 1 (remind_at reminder)\<rparr> # rest')
           else (reminder # due, reminder # rest'))
        else (due, reminder # rest'))"

definition check_due :: "int \<Rightarrow> reminder list \<Rightarrow> reminder list \<times> reminder list" where
  "check_due clock reminders = check_due_loop (arrow_utcnow clock) reminders"

fun cancel :: "string \<Rightarrow> reminder list \<Rightarrow> bool \<times> reminder list" where
  "cancel title' [] = (False, [])"
| "cancel title' (reminder # rest) =
     (if title reminder = title' \<and> active reminder
      then (True, reminder\<lparr>active := False\<rparr> # rest)
      else (case cancel title' rest of (found, rest') \<Rightarrow> (found, reminder # rest')))"

text \<open>The calls a client can make on a \<^verbatim>\<open>Reminder\<close>, each with the clock reading it sees.\<close>

datatype reminder_call =
    Add int string arrow bool "string option"
  | ListActive
  | CheckDue int
  | Cancel string

fun call :: "reminder_call \<Rightarrow> reminder list \<Rightarrow> reminder list" where
  "call (Add clock title' remind_at' recurring' interval') reminders =
     add clock title' remind_at' recurring' interval' reminders"
| "call ListActive reminders = reminders"
| "call (CheckDue clock) reminders = snd (check_due clock reminders)"
| "call (Cancel title') reminders = snd (cancel title' reminders)"

text \<open>A sequence of calls, in order.\<close>

fun calls :: "reminder_call list \<Rightarrow> reminder list \<Rightarrow> reminder list" where
  "calls [] reminders = reminders"
| "calls (c # cs) reminders = calls cs (call c reminders)"

text \<open>Successive \<^verbatim>\<open>check_due\<close> calls: the due lists they return, and the final list.\<close>

fun check_due_calls :: "int list \<Rightarrow> reminder list \<Rightarrow> reminder list list \<times> reminder list" where
  "check_due_calls [] reminders = ([], reminders)"
| "check_due_calls (clock # clocks) reminders =
     (case check_due clock reminders of (due, reminders') \<Rightarrow>
        case check_due_calls clocks reminders' of (dues, final) \<Rightarrow> (due # dues, final))"

record 'f task =
  task_name :: string
  task_type :: string
  task_day :: "int option"
  task_hour :: int
  task_minute :: int
  task_fn :: 'f
  task_timezone :: string
  next_run :: arrow
  task_active :: bool

definition add_daily_task ::
  "(string \<Rightarrow> error + timezone) \<Rightarrow> int \<Rightarrow> string \<Rightarrow> int \<Rightarrow> int \<Rightarrow> 'f \<Rightarrow> string
     \<Rightarrow> 'f task list \<Rightarrow> error + 'f task list" where
  "add_daily_task parse clock name hour minute task timezone tasks =
     (case arrow_now parse clock timezone of
        Inl e \<Rightarrow> Inl e
      | Inr now \<Rightarrow>
          (case replace_hms now hour minute 0 of
             Inl e \<Rightarrow> Inl e
           | Inr next_run0 \<Rightarrow>
               Inr (tasks @
                 [\<lparr>task_name = name, task_type = ''daily'', task_day = None,
                   task_hour = hour, task_minute = minute, task_fn = task,
                   task_timezone = timezone,
                   next_run = (if arrow_le next_run0 now then shift_days 1 next_run0
                               else next_run0),
                   task_active = True\<rparr>])))"


section \<open>Time-zone helpers (\<^verbatim>\<open>utils/timezone_helpers.py\<close>)\<close>

text \<open>
  An Arrow value always carries a zone, so the test \<^verbatim>\<open>dt.tzinfo is None\<close> of
  \<^verbatim>\<open>convert_timezone\<close> never holds; what decides is the comparison of the zone's
  printed form with \<^verbatim>\<open>from_tz\<close>.
\<close>

definition convert_timezone ::
  "(string \<Rightarrow> error + timezone) \<Rightarrow> arrow \<Rightarrow> string \<Rightarrow> string \<Rightarrow> error + arrow" where
  "convert_timezone parse dt from_tz to_tz =
     (case (if tz_str (tzinfo dt) \<noteq> from_tz then replace_tzinfo parse dt from_tz else Inr dt) of
        Inl e \<Rightarrow> Inl e
      | Inr dt' \<Rightarrow> arrow_to parse dt' to_tz)"

text \<open>
  \<^verbatim>\<open>get_world_times\<close>: the result dictionary is an association list in insertion order;
  the \<^verbatim>\<open>except\<close> clause turns a failed conversion into the entry's text.
\<close>

fun world_times_loop ::
  "(string \<Rightarrow> error + timezone) \<Rightarrow> (arrow \<Rightarrow> string \<Rightarrow> string) \<Rightarrow> arrow \<Rightarrow> string list
     \<Rightarrow> (string \<times> string) list \<Rightarrow> (string \<times> string) list" where
  "world_times_loop parse fmt dt [] world_times = world_times"
| "world_times_loop parse fmt dt (tz # tzs) world_times =
     world_times_loop parse fmt dt tzs
       (AList.update tz
          (case arrow_to parse dt tz of
             Inr converted \<Rightarrow> fmt converted ''YYYY-MM-DD HH:mm:ss ZZ''
           | Inl e \<Rightarrow> ''Error: '' @ error_str e)
          world_times)"

definition get_world_times ::
  "(string \<Rightarrow> error + timezone) \<Rightarrow> (arrow \<Rightarrow> string \<Rightarrow> string) \<Rightarrow> arrow \<Rightarrow> string list
     \<Rightarrow> (string \<times> string) list" where
  "get_world_times parse fmt dt timezones = world_times_loop parse fmt dt timezones []"

section \<open>Sample values\<close>

text \<open>
  Concrete inputs for the worked instances below: \<^verbatim>\<open>arrow.get\<close> of a date and time
  in UTC, the clock reading 2024-02-07 12:00 UTC, and a reminder list with a one-off
  reminder that is due, a daily one that is due, a one-off that is not yet due and a
  recurring one without an interval that is due.
\<close>

definition arrow_at :: "int \<Rightarrow> int \<Rightarrow> int \<Rightarrow> int \<Rightarrow> int \<Rightarrow> arrow" where
  "arrow_at y m d h mi = \<lparr>wall = mk_wall (ymd2ord y m d) h mi 0 0, tzinfo = tz_utc\<rparr>"

definition sample_clock :: int where
  "sample_clock = mk_wall (ymd2ord 2024 2 7) 12 0 0 0"

definition sample_reminders :: "reminder list" where
  "sample_reminders =
     [\<lparr>title = ''Meeting'', remind_at = arrow_at 2024 2 7 11 0, recurring = False,
       interval = None, created_at = arrow_at 2024 2 1 0 0, active = True\<rparr>,
      \<lparr>title = ''Daily Task'', remind_at = arrow_at 2024 2 7 11 0, recurring = True,
       interval = Some ''daily'', created_at = arrow_at 2024 2 1 0 0, active = True\<rparr>,
      \<lparr>title = ''Later'', remind_at = arrow_at 2024 2 9 0 0, recurring = False,
       interval = None, created_at = arrow_at 2024 2 1 0 0, active = True\<rparr>,
      \<lparr>title = ''Odd'', remind_at = arrow_at 2024 2 7 11 0, recurring = True,
       interval = None, created_at = arrow_at 2024 2 1 0 0, active = True\<rparr>]"

text \<open>
  A time-zone parser that knows two names, UTC and Asia/Tokyo (nine hours ahead of
  UTC all year), and a formatter that prints the zone before the pattern.
\<close>

definition sample_parse :: "string \<Rightarrow> error + timezone" where
  "sample_parse name =
     (if name = ''UTC'' then Inr tz_utc
      else if name = ''Asia/Tokyo'' then Inr (tz_fixed ''Asia/Tokyo'' 32400000000)
      else Inl (ParserError (''Could not parse timezone expression '' @ name)))"

definition sample_fmt :: "arrow \<Rightarrow> string \<Rightarrow> string" where
  "sample_fmt a pattern = tz_str (tzinfo a) @ '' '' @ pattern"

section \<open>Calendar arithmetic\<close>




















section \<open>Quarter bounds\<close>




section \<open>Sample dates\<close>

lemma ymd2ord_samples:
  "ymd2ord 2024 2 9 = 738925" "ymd2ord 2024 2 12 = 738928"
  "ymd2ord 2024 2 5 = 738921" "ymd2ord 2024 2 1 = 738917" "ymd2ord 2024 2 7 = 738923"
  "ymd2ord 2024 2 14 = 738930" "ymd2ord 2024 2 8 = 738924"
  by (simp_all add: ymd2ord_def days_before_year_def days_before_month_def is_leap_def
      DAYS_BEFORE_MONTH_def)

section \<open>Business days\<close>








section \<open>Date ranges\<close>

text \<open>
  An unrecognized \<open>step\<close> is looked at only inside the loop body, after the first date
  has been appended: with a non-empty range the call raises, with an empty range
  (\<open>start\<close> after \<open>end_date\<close>) it returns the empty list.
\<close>

lemma get_date_range_invalid_step:
  assumes "step \<notin> {''day'', ''week'', ''month'', ''year''}"
  shows "get_date_range start end_date step
     = (if arrow_le start end_date then Some (Inl (ValueError (''Invalid step: '' @ step)))
        else Some (Inr []))"
  using assms by (simp add: get_date_range_def date_range_loop.simps)

text \<open>
  Claim C4 says that \<^verbatim>\<open>get_date_range\<close> fails for every \<open>start\<close>, \<open>end\<close> and
  unrecognized \<open>step\<close>. For the range from 2024-02-05 back to 2024-02-01 and the step
  \<^verbatim>\<open>'invalid'\<close> the call returns the empty list.
\<close>

theorem get_date_range_invalid_step_empty_range:
  "get_date_range \<lparr>wall = mk_wall (ymd2ord 2024 2 5) 0 0 0 0, tzinfo = tz_utc\<rparr>
     \<lparr>wall = mk_wall (ymd2ord 2024 2 1) 0 0 0 0, tzinfo = tz_utc\<rparr> ''invalid'' = Some (Inr [])"
  by (simp add: get_date_range_def date_range_loop.simps arrow_le_def utc_us_def tz_utc_def
      tz_fixed_def mk_wall_def US_PER_DAY_def ymd2ord_samples)

section \<open>Reminders\<close>

lemma utc_us_utcnow: "utc_us (arrow_utcnow clock) = clock"
  by (simp add: utc_us_def arrow_utcnow_def tz_utc_def tz_fixed_def)

lemma check_due_loop_map:
  "check_due_loop now rs =
     (map (\<lambda>r. if \<not> recurring r then r\<lparr>active := False\<rparr>
                else if interval r = Some ''daily''
                then r\<lparr>remind_at := shift_days 1 (remind_at r)\<rparr>
                else if interval r = Some ''weekly''
                then r\<lparr>remind_at := shift_weeks 1 (remind_at r)\<rparr>
                else r)
        (filter (\<lambda>r. active r \<and> arrow_le (remind_at r) now) rs),
      map (\<lambda>r. if active r \<and> arrow_le (remind_at r) now
                then (if \<not> recurring r then r\<lparr>active := False\<rparr>
                      else if interval r = Some ''daily''
                      then r\<lparr>remind_at := shift_days 1 (remind_at r)\<rparr>
                      else if interval r = Some ''weekly''
                      then r\<lparr>remind_at := shift_weeks 1 (remind_at r)\<rparr>
                      else r)
                else r) rs)"
  by (induction rs) simp_all

lemma check_due_map:
  "check_due clock rs =
     (map (\<lambda>r. if \<not> recurring r then r\<lparr>active := False\<rparr>
                else if interval r = Some ''daily''
                then r\<lparr>remind_at := (remind_at r)\<lparr>wall := wall (remind_at r) + US_PER_DAY\<rparr>\<rparr>
                else if interval r = Some ''weekly''
                then r\<lparr>remind_at := (remind_at r)\<lparr>wall := wall (remind_at r) + 7 * US_PER_DAY\<rparr>\<rparr>
                else r)
        (filter (\<lambda>r. active r \<and> utc_us (remind_at r) \<le> clock) rs),
      map (\<lambda>r. if active r \<and> utc_us (remind_at r) \<le> clock
                then (if \<not> recurring r then r\<lparr>active := False\<rparr>
                      else if interval r = Some ''daily''
                      then r\<lparr>remind_at := (remind_at r)\<lparr>wall := wall (remind_at r) + US_PER_DAY\<rparr>\<rparr>
                      else if interval r = Some ''weekly''
                      then r\<lparr>remind_at := (remind_at r)\<lparr>wall := wall (remind_at r) + 7 * US_PER_DAY\<rparr>\<rparr>
                      else r)
                else r) rs)"
  by (simp add: check_due_def check_due_loop_map arrow_le_def utc_us_utcnow shift_days_def
      shift_weeks_def)



lemma check_due_keeps:
  assumes "i < length reminders" "active (reminders ! i)" "recurring (reminders ! i)"
    "interval (reminders ! i) \<noteq> Some ''daily''" "interval (reminders ! i) \<noteq> Some ''weekly''"
    "utc_us (remind_at (reminders ! i)) \<le> clock"
    "check_due clock reminders = (due, reminders')"
  shows "length reminders' = length reminders" "reminders' ! i = reminders ! i"
    "reminders ! i \<in> set due"
proof -
  let ?P = "\<lambda>r. active r \<and> utc_us (remind_at r) \<le> clock"
  let ?fire = "\<lambda>r. if \<not> recurring r then r\<lparr>active := False\<rparr>
                else if interval r = Some ''daily''
                then r\<lparr>remind_at := (remind_at r)\<lparr>wall := wall (remind_at r) + US_PER_DAY\<rparr>\<rparr>
                else if interval r = Some ''weekly''
                then r\<lparr>remind_at := (remind_at r)\<lparr>wall := wall (remind_at r) + 7 * US_PER_DAY\<rparr>\<rparr>
                else r"
  from assms(7) have due: "due = map ?fire (filter ?P reminders)"
    and rs': "reminders' = map (\<lambda>r. if ?P r then ?fire r else r) reminders"
    by (simp_all add: check_due_map)
  show "length reminders' = length reminders" by (simp add: rs')
  show "reminders' ! i = reminders ! i" using assms(1-6) by (simp add: rs')
  have mem: "reminders ! i \<in> set (filter ?P reminders)" using assms(1,2,6) by simp
  have feq: "?fire (reminders ! i) = reminders ! i" using assms(3-5) by simp
  have "?fire (reminders ! i) \<in> set (map ?fire (filter ?P reminders))"
    unfolding set_map using mem by (rule imageI)
  then show "reminders ! i \<in> set due"
    unfolding due feq .
qed


lemma sample_utc:
  "utc_us (arrow_at y m d h mi) = mk_wall (ymd2ord y m d) h mi 0 0"
  by (simp add: utc_us_def arrow_at_def tz_utc_def tz_fixed_def)


text \<open>
  Claim C10. A record that is active, recurring and has an interval other than
  \<^verbatim>\<open>'daily'\<close> and \<^verbatim>\<open>'weekly'\<close> (for example none) is left exactly as it is by every
  \<^verbatim>\<open>check_due\<close> call made at or after its trigger instant, and is in the due list of
  every such call: however many calls follow one another, each of them reports it.
\<close>

theorem check_due_unknown_interval_refires:
  assumes "i < length reminders" "active (reminders ! i)" "recurring (reminders ! i)"
    "interval (reminders ! i) \<noteq> Some ''daily''" "interval (reminders ! i) \<noteq> Some ''weekly''"
    "\<forall>clock \<in> set clocks. utc_us (remind_at (reminders ! i)) \<le> clock"
    "check_due_calls clocks reminders = (dues, final)"
  shows "length dues = length clocks \<and> length final = length reminders \<and>
     final ! i = reminders ! i \<and> (\<forall>due \<in> set dues. reminders ! i \<in> set due)"
  using assms
proof (induction clocks arbitrary: reminders dues final)
  case Nil
  then show ?case by simp
next
  case (Cons clock clocks)
  obtain due reminders' where cd: "check_due clock reminders = (due, reminders')"
    by (cases "check_due clock reminders")
  obtain dues' final' where cc: "check_due_calls clocks reminders' = (dues', final')"
    by (cases "check_due_calls clocks reminders'")
  from Cons.prems(7) cd cc have dues: "dues = due # dues'" and final: "final = final'"
    by simp_all
  have le: "utc_us (remind_at (reminders ! i)) \<le> clock" using Cons.prems(6) by simp
  note k = check_due_keeps[OF Cons.prems(1-5) le cd]
  have ih: "length dues' = length clocks \<and> length final' = length reminders' \<and>
     final' ! i = reminders' ! i \<and> (\<forall>due \<in> set dues'. reminders' ! i \<in> set due)"
  proof (rule Cons.IH[OF _ _ _ _ _ _ cc])
    show "i < length reminders'" using k(1) Cons.prems(1) by simp
    show "active (reminders' ! i)" "recurring (reminders' ! i)"
      "interval (reminders' ! i) \<noteq> Some ''daily''" "interval (reminders' ! i) \<noteq> Some ''weekly''"
      using Cons.prems(2-5) by (simp_all add: k(2))
    show "\<forall>clock \<in> set clocks. utc_us (remind_at (reminders' ! i)) \<le> clock"
      using Cons.prems(6) by (simp add: k(2))
  qed
  show ?case using ih k by (simp add: dues final)
qed

theorem check_due_unknown_interval_witness:
  "length (fst (check_due_calls [sample_clock, sample_clock + US_PER_DAY] sample_reminders)) = 2 \<and>
   snd (check_due_calls [sample_clock, sample_clock + US_PER_DAY] sample_reminders) ! 3
     = sample_reminders ! 3 \<and>
   list_all (\<lambda>due. sample_reminders ! 3 \<in> set due)
     (fst (check_due_calls [sample_clock, sample_clock + US_PER_DAY] sample_reminders))"
proof -
  have d: "utc_us (remind_at (sample_reminders ! 3)) \<le> sample_clock"
    by (simp add: sample_reminders_def sample_clock_def sample_utc mk_wall_def
        US_PER_DAY_def ymd2ord_samples)
  then have d': "utc_us (remind_at (sample_reminders ! 3)) \<le> sample_clock + US_PER_DAY"
    by (simp add: US_PER_DAY_def)
  have "length (fst (check_due_calls [sample_clock, sample_clock + US_PER_DAY] sample_reminders))
      = length [sample_clock, sample_clock + US_PER_DAY] \<and>
    length (snd (check_due_calls [sample_clock, sample_clock + US_PER_DAY] sample_reminders))
      = length sample_reminders \<and>
    snd (check_due_calls [sample_clock, sample_clock + US_PER_DAY] sample_reminders) ! 3
      = sample_reminders ! 3 \<and>
    (\<forall>due \<in> set (fst (check_due_calls [sample_clock, sample_clock + US_PER_DAY] sample_reminders)).
       sample_reminders ! 3 \<in> set due)"
  proof (rule check_due_unknown_interval_refires[OF _ _ _ _ _ _ surjective_pairing])
    show "3 < length sample_reminders" by (simp add: sample_reminders_def)
    show "active (sample_reminders ! 3)" "recurring (sample_reminders ! 3)"
      "interval (sample_reminders ! 3) \<noteq> Some ''daily''"
      "interval (sample_reminders ! 3) \<noteq> Some ''weekly''"
      by (simp_all add: sample_reminders_def)
    show "\<forall>clock \<in> set [sample_clock, sample_clock + US_PER_DAY].
        utc_us (remind_at (sample_reminders ! 3)) \<le> clock"
      using d d' by simp
  qed
  then show ?thesis by (simp add: list_all_iff)
qed

lemma cancel_preserves:
  "length (snd (cancel t rs)) = length rs \<and>
   (\<forall>i<length rs. \<exists>a. snd (cancel t rs) ! i = (rs ! i)\<lparr>active := a\<rparr>)"
proof (induction rs)
  case Nil
  then show ?case by simp
next
  case (Cons r rs)
  show ?case
  proof (cases "title r = t \<and> active r")
    case True
    have "\<exists>a. (r\<lparr>active := False\<rparr> # rs) ! i = ((r # rs) ! i)\<lparr>active := a\<rparr>" for i
    proof (cases i)
      case 0
      then show ?thesis by (intro exI[of _ False]) simp
    next
      case (Suc n)
      then show ?thesis by (intro exI[of _ "active (rs ! n)"]) simp
    qed
    then show ?thesis using True by simp
  next
    case False
    have "\<exists>a. (r # snd (cancel t rs)) ! i = ((r # rs) ! i)\<lparr>active := a\<rparr>"
      if "i < length (r # rs)" for i
    proof (cases i)
      case 0
      then show ?thesis by (auto intro: exI[of _ "active r"])
    next
      case (Suc n)
      then show ?thesis using Cons.IH that by simp
    qed
    moreover have "cancel t (r # rs) = (fst (cancel t rs), r # snd (cancel t rs))"
      using False by (auto simp: split_beta)
    ultimately show ?thesis using Cons.IH by simp
  qed
qed

lemma call_preserves:
  "length rs \<le> length (call c rs) \<and>
   (\<forall>i<length rs. \<exists>a t. call c rs ! i = (rs ! i)\<lparr>active := a, remind_at := t\<rparr>)"
proof (cases c)
  case (Add clock title' remind_at' recurring' interval')
  have "\<exists>a t. rs ! i = (rs ! i)\<lparr>active := a, remind_at := t\<rparr>" for i
    by (intro exI[of _ "active (rs ! i)"] exI[of _ "remind_at (rs ! i)"]) simp
  then show ?thesis using Add by (simp add: add_def nth_append)
next
  case ListActive
  have "\<exists>a t. rs ! i = (rs ! i)\<lparr>active := a, remind_at := t\<rparr>" for i
    by (intro exI[of _ "active (rs ! i)"] exI[of _ "remind_at (rs ! i)"]) simp
  then show ?thesis using ListActive by simp
next
  case (CheckDue clock)
  define g :: "reminder \<Rightarrow> reminder" where "g = (\<lambda>r. if active r \<and> utc_us (remind_at r) \<le> clock
                then (if \<not> recurring r then r\<lparr>active := False\<rparr>
                      else if interval r = Some ''daily''
                      then r\<lparr>remind_at := (remind_at r)\<lparr>wall := wall (remind_at r) + US_PER_DAY\<rparr>\<rparr>
                      else if interval r = Some ''weekly''
                      then r\<lparr>remind_at := (remind_at r)\<lparr>wall := wall (remind_at r) + 7 * US_PER_DAY\<rparr>\<rparr>
                      else r)
                else r)"
  have upd: "\<exists>a t. g r = r\<lparr>active := a, remind_at := t\<rparr>" for r
  proof -
    have a: "\<exists>a t. r = r\<lparr>active := a, remind_at := t\<rparr>"
      by (intro exI[of _ "active r"] exI[of _ "remind_at r"]) simp
    have b: "\<exists>a t. r\<lparr>active := False\<rparr> = r\<lparr>active := a, remind_at := t\<rparr>"
      by (intro exI[of _ False] exI[of _ "remind_at r"]) simp
    have c: "\<exists>a t. r\<lparr>remind_at := x\<rparr> = r\<lparr>active := a, remind_at := t\<rparr>" for x
      by (intro exI[of _ "active r"] exI[of _ x]) simp
    show ?thesis unfolding g_def using a b c by simp
  qed
  have "call c rs = map g rs" using CheckDue by (simp add: check_due_map g_def)
  then show ?thesis using upd by simp
next
  case (Cancel t)
  have "\<exists>a t'. snd (cancel t rs) ! i = (rs ! i)\<lparr>active := a, remind_at := t'\<rparr>"
    if "i < length rs" for i
  proof -
    from cancel_preserves[of t rs] that obtain a
      where "snd (cancel t rs) ! i = (rs ! i)\<lparr>active := a\<rparr>" by blast
    then show ?thesis
      by (intro exI[of _ a] exI[of _ "remind_at (rs ! i)"]) simp
  qed
  then show ?thesis using Cancel cancel_preserves[of t rs] by simp
qed

text \<open>
  Claim C5. Whatever sequence of \<^verbatim>\<open>add\<close>, \<^verbatim>\<open>list_active\<close>, \<^verbatim>\<open>check_due\<close> and
  \<^verbatim>\<open>cancel\<close> calls is made, the list never gets shorter, and every record that was
  stored is still at its position, equal to what it was except possibly for its
  \<^verbatim>\<open>active\<close> flag and its trigger instant: nothing is removed, a deactivated record
  stays in storage.
\<close>

theorem reminder_calls_preserve_records:
  "length reminders \<le> length (calls cs reminders) \<and>
   (\<forall>i<length reminders.
      \<exists>a t. calls cs reminders ! i = (reminders ! i)\<lparr>active := a, remind_at := t\<rparr>)"
proof (induction cs arbitrary: reminders)
  case Nil
  have "\<exists>a t. reminders ! i = (reminders ! i)\<lparr>active := a, remind_at := t\<rparr>" for i
    by (intro exI[of _ "active (reminders ! i)"] exI[of _ "remind_at (reminders ! i)"]) simp
  then show ?case by simp
next
  case (Cons c cs)
  note step = call_preserves[of reminders c]
  note rest = Cons.IH[of "call c reminders"]
  have len: "length reminders \<le> length (calls (c # cs) reminders)"
    using step rest by simp
  have "\<exists>a t. calls (c # cs) reminders ! i = (reminders ! i)\<lparr>active := a, remind_at := t\<rparr>"
    if i: "i < length reminders" for i
  proof -
    from step i obtain a1 t1
      where 1: "call c reminders ! i = (reminders ! i)\<lparr>active := a1, remind_at := t1\<rparr>"
      by blast
    from step i have "i < length (call c reminders)" by simp
    with rest obtain a2 t2
      where 2: "calls cs (call c reminders) ! i
          = (call c reminders ! i)\<lparr>active := a2, remind_at := t2\<rparr>"
      by blast
    show ?thesis
      by (intro exI[of _ a2] exI[of _ t2]) (simp add: 1 2)
  qed
  with len show ?case by simp
qed

theorem reminder_calls_witness:
  "length sample_reminders
     \<le> length (calls [Add sample_clock ''New'' (arrow_at 2024 2 9 0 0) False None,
                       Cancel ''Later'', CheckDue sample_clock, ListActive] sample_reminders) \<and>
   (\<exists>a t. calls [Add sample_clock ''New'' (arrow_at 2024 2 9 0 0) False None,
                  Cancel ''Later'', CheckDue sample_clock, ListActive] sample_reminders ! 2
           = (sample_reminders ! 2)\<lparr>active := a, remind_at := t\<rparr>)"
proof -
  note t = reminder_calls_preserve_records[of sample_reminders
      "[Add sample_clock ''New'' (arrow_at 2024 2 9 0 0) False None,
        Cancel ''Later'', CheckDue sample_clock, ListActive]"]
  have "2 < length sample_reminders" by (simp add: sample_reminders_def)
  from t[THEN conjunct1] t[THEN conjunct2, rule_format, OF this]
  show ?thesis by (rule conjI)
qed

section \<open>Formatter registry\<close>

lemma format_Inl_iff:
  "(\<exists>e. format fmt templates dt name = Inl e) \<longleftrightarrow> name \<notin> set (list_templates templates)"
  by (auto simp: format_def list_templates_def map_of_eq_None_iff split: option.splits)
    (metis map_of_eq_None_iff not_Some_eq)

text \<open>
  Claim C7. \<^verbatim>\<open>format\<close> raises, with the ``Unknown template'' error, exactly when the
  name is not registered. After \<^verbatim>\<open>add_template(name, pattern)\<close> the name is
  registered, \<^verbatim>\<open>format\<close> with that name formats with \<open>pattern\<close>, the other names
  format as before, and the registered names are the old ones and \<open>name\<close>. A new
  formatter has exactly the names short, long, time, datetime, iso, filename, log and
  display.
\<close>

theorem DateFormatter_correct:
  "((\<exists>e. format fmt templates dt name = Inl e) \<longleftrightarrow> name \<notin> set (list_templates templates)) \<and>
   (format fmt templates dt name = Inl (ValueError (''Unknown template: '' @ name))
      \<longleftrightarrow> name \<notin> set (list_templates templates)) \<and>
   name \<in> set (list_templates (add_template name pattern templates)) \<and>
   set (list_templates (add_template name pattern templates))
     = insert name (set (list_templates templates)) \<and>
   format fmt (add_template name pattern templates) dt other
     = (if other = name then Inr (fmt dt pattern) else format fmt templates dt other) \<and>
   list_templates DateFormatter_init
     = [''short'', ''long'', ''time'', ''datetime'', ''iso'', ''filename'', ''log'', ''display'']"
proof -
  have a: "(\<exists>e. format fmt templates dt name = Inl e) \<longleftrightarrow> name \<notin> set (list_templates templates)"
    by (rule format_Inl_iff)
  have b: "format fmt templates dt name = Inl (ValueError (''Unknown template: '' @ name))
      \<longleftrightarrow> name \<notin> set (list_templates templates)"
    using a by (auto simp: format_def split: option.splits)
  have d: "set (list_templates (add_template name pattern templates))
     = insert name (set (list_templates templates))"
    by (simp add: list_templates_def add_template_def dom_update)
  have c: "name \<in> set (list_templates (add_template name pattern templates))"
    by (simp add: d)
  have e: "format fmt (add_template name pattern templates) dt other
     = (if other = name then Inr (fmt dt pattern) else format fmt templates dt other)"
    by (simp add: format_def add_template_def update_conv')
  have f: "list_templates DateFormatter_init
     = [''short'', ''long'', ''time'', ''datetime'', ''iso'', ''filename'', ''log'', ''display'']"
    by (simp add: list_templates_def DateFormatter_init_def)
  show ?thesis by (intro conjI; fact)
qed

theorem DateFormatter_witness:
  "format (\<lambda>a p. p) (add_template ''short'' ''YY'' DateFormatter_init)
      \<lparr>wall = 0, tzinfo = tz_utc\<rparr> ''short'' = Inr ''YY'' \<and>
   format (\<lambda>a p. p) DateFormatter_init \<lparr>wall = 0, tzinfo = tz_utc\<rparr> ''custom''
     = Inl (ValueError ''Unknown template: custom'')"
proof -
  have "''custom'' \<notin> set (list_templates DateFormatter_init)"
    by (simp add: list_templates_def DateFormatter_init_def)
  then show ?thesis
    using DateFormatter_correct[of "\<lambda>a p. p" DateFormatter_init "\<lparr>wall = 0, tzinfo = tz_utc\<rparr>"
        "''custom''" "''short''" "''YY''"]
      DateFormatter_correct[of "\<lambda>a p. p" DateFormatter_init "\<lparr>wall = 0, tzinfo = tz_utc\<rparr>"
        "''short''" "''YY''" "''short''"]
    by simp
qed

section \<open>Weekly tasks\<close>









section \<open>Time-zone conversion\<close>

lemma utc_us_arrow_to:
  assumes "tz_consistent z"
  shows "utc_us \<lparr>wall = fromutc z u, tzinfo = z\<rparr> = u"
  using assms by (simp add: utc_us_def tz_consistent_def)

lemma tz_fixed_consistent: "tz_consistent (tz_fixed name off)"
  by (simp add: tz_consistent_def tz_fixed_def)

lemma convert_timezone_unknown_zone:
  "parse to_tz = Inl e \<Longrightarrow> tz_str (tzinfo dt) = from_tz
     \<Longrightarrow> convert_timezone parse dt from_tz to_tz = Inl e"
  "parse from_tz = Inl e \<Longrightarrow> tz_str (tzinfo dt) \<noteq> from_tz
     \<Longrightarrow> convert_timezone parse dt from_tz to_tz = Inl e"
  by (simp_all add: convert_timezone_def arrow_to_def replace_tzinfo_def)





lemma world_times_loop_spec:
  assumes "distinct (map fst acc)"
  shows "distinct (map fst (world_times_loop parse fmt dt tzs acc)) \<and>
     set (map fst (world_times_loop parse fmt dt tzs acc)) = set tzs \<union> set (map fst acc) \<and>
     (\<forall>tz. map_of (world_times_loop parse fmt dt tzs acc) tz
        = (if tz \<in> set tzs
           then Some (case arrow_to parse dt tz of
                        Inr converted \<Rightarrow> fmt converted ''YYYY-MM-DD HH:mm:ss ZZ''
                      | Inl e \<Rightarrow> ''Error: '' @ error_str e)
           else map_of acc tz))"
  using assms
proof (induction tzs arbitrary: acc)
  case Nil
  then show ?case by simp
next
  case (Cons z zs)
  let ?v = "case arrow_to parse dt z of
              Inr converted \<Rightarrow> fmt converted ''YYYY-MM-DD HH:mm:ss ZZ''
            | Inl e \<Rightarrow> ''Error: '' @ error_str e"
  let ?acc = "AList.update z ?v acc"
  have d: "distinct (map fst ?acc)" using Cons.prems by (rule distinct_update)
  note ih = Cons.IH[OF d]
  note i1 = ih[THEN conjunct1]
  note i2 = ih[THEN conjunct2, THEN conjunct1]
  note i3 = ih[THEN conjunct2, THEN conjunct2, rule_format]
  have keys: "fst ` set ?acc = insert z (fst ` set acc)"
    by (simp add: dom_update)
  have look: "map_of ?acc tz = (if tz = z then Some ?v else map_of acc tz)" for tz
    by (simp add: update_conv')
  have g1: "distinct (map fst (world_times_loop parse fmt dt (z # zs) acc))"
    using i1 by simp
  have g2: "set (map fst (world_times_loop parse fmt dt (z # zs) acc))
      = set (z # zs) \<union> set (map fst acc)"
    using i2 by (simp add: keys)
  have g3: "\<forall>tz. map_of (world_times_loop parse fmt dt (z # zs) acc) tz
        = (if tz \<in> set (z # zs)
           then Some (case arrow_to parse dt tz of
                        Inr converted \<Rightarrow> fmt converted ''YYYY-MM-DD HH:mm:ss ZZ''
                      | Inl e \<Rightarrow> ''Error: '' @ error_str e)
           else map_of acc tz)"
    by (simp add: i3 look)
  show ?case by (intro conjI; fact)
qed

text \<open>
  Claim C9. The dictionary \<^verbatim>\<open>get_world_times\<close> returns has exactly the requested zone
  names as keys, each once. A name the parser accepts maps to the formatted local
  reading of the instant of \<open>dt\<close> in that zone (for a zone of the database that reading
  has the timestamp of \<open>dt\<close>); a name it rejects maps to \<^verbatim>\<open>'Error: '\<close> followed by the
  message, and the other entries are not affected.
\<close>

theorem get_world_times_correct:
  "distinct (map fst (get_world_times parse fmt dt timezones)) \<and>
   set (map fst (get_world_times parse fmt dt timezones)) = set timezones \<and>
   map_of (get_world_times parse fmt dt timezones) tz
     = (if tz \<in> set timezones
        then Some (case parse tz of
                     Inr z \<Rightarrow> fmt \<lparr>wall = fromutc z (utc_us dt), tzinfo = z\<rparr>
                                ''YYYY-MM-DD HH:mm:ss ZZ''
                   | Inl e \<Rightarrow> ''Error: '' @ error_str e)
        else None) \<and>
   (\<forall>z. parse tz = Inr z \<and> tz_consistent z \<longrightarrow>
        timestamp_us \<lparr>wall = fromutc z (utc_us dt), tzinfo = z\<rparr> = timestamp_us dt)"
proof -
  note l = world_times_loop_spec[of "[]" parse fmt dt timezones, simplified]
  have a: "distinct (map fst (get_world_times parse fmt dt timezones))"
    using l by (simp add: get_world_times_def)
  have b: "set (map fst (get_world_times parse fmt dt timezones)) = set timezones"
    using l by (simp add: get_world_times_def)
  have conv: "(case arrow_to parse dt tz of
                 Inr converted \<Rightarrow> fmt converted ''YYYY-MM-DD HH:mm:ss ZZ''
               | Inl e \<Rightarrow> ''Error: '' @ error_str e)
      = (case parse tz of
           Inr z \<Rightarrow> fmt \<lparr>wall = fromutc z (utc_us dt), tzinfo = z\<rparr> ''YYYY-MM-DD HH:mm:ss ZZ''
         | Inl e \<Rightarrow> ''Error: '' @ error_str e)"
    by (simp add: arrow_to_def split: sum.splits)
  have c: "map_of (get_world_times parse fmt dt timezones) tz
     = (if tz \<in> set timezones
        then Some (case parse tz of
                     Inr z \<Rightarrow> fmt \<lparr>wall = fromutc z (utc_us dt), tzinfo = z\<rparr>
                                ''YYYY-MM-DD HH:mm:ss ZZ''
                   | Inl e \<Rightarrow> ''Error: '' @ error_str e)
        else None)"
    using l by (simp add: get_world_times_def conv)
  have d: "\<forall>z. parse tz = Inr z \<and> tz_consistent z \<longrightarrow>
        timestamp_us \<lparr>wall = fromutc z (utc_us dt), tzinfo = z\<rparr> = timestamp_us dt"
    by (simp add: timestamp_us_def utc_us_arrow_to)
  show ?thesis by (intro conjI; fact)
qed

theorem get_world_times_witness:
  "get_world_times sample_parse sample_fmt (arrow_at 2024 2 7 12 0)
       [''UTC'', ''Invalid/Timezone'', ''Asia/Tokyo'']
     = [(''UTC'', ''UTC YYYY-MM-DD HH:mm:ss ZZ''),
        (''Invalid/Timezone'', ''Error: Could not parse timezone expression Invalid/Timezone''),
        (''Asia/Tokyo'', ''Asia/Tokyo YYYY-MM-DD HH:mm:ss ZZ'')] \<and>
   map_of (get_world_times sample_parse sample_fmt (arrow_at 2024 2 7 12 0)
             [''UTC'', ''Invalid/Timezone'', ''Asia/Tokyo'']) ''Asia/Tokyo''
     = Some (sample_fmt \<lparr>wall = wall (arrow_at 2024 2 7 21 0),
                          tzinfo = tz_fixed ''Asia/Tokyo'' 32400000000\<rparr>
               ''YYYY-MM-DD HH:mm:ss ZZ'') \<and>
   timestamp_us \<lparr>wall = wall (arrow_at 2024 2 7 21 0),
                 tzinfo = tz_fixed ''Asia/Tokyo'' 32400000000\<rparr>
     = timestamp_us (arrow_at 2024 2 7 12 0)"
proof -
  note t = get_world_times_correct[of sample_parse sample_fmt "arrow_at 2024 2 7 12 0"
      "[''UTC'', ''Invalid/Timezone'', ''Asia/Tokyo'']" "''Asia/Tokyo''"]
  have p: "sample_parse ''Asia/Tokyo'' = Inr (tz_fixed ''Asia/Tokyo'' 32400000000)"
    by (simp add: sample_parse_def)
  have w: "fromutc (tz_fixed ''Asia/Tokyo'' 32400000000) (utc_us (arrow_at 2024 2 7 12 0))
      = wall (arrow_at 2024 2 7 21 0)"
    by (simp add: tz_fixed_def utc_us_def arrow_at_def tz_utc_def mk_wall_def)
  have a: "get_world_times sample_parse sample_fmt (arrow_at 2024 2 7 12 0)
       [''UTC'', ''Invalid/Timezone'', ''Asia/Tokyo'']
     = [(''UTC'', ''UTC YYYY-MM-DD HH:mm:ss ZZ''),
        (''Invalid/Timezone'', ''Error: Could not parse timezone expression Invalid/Timezone''),
        (''Asia/Tokyo'', ''Asia/Tokyo YYYY-MM-DD HH:mm:ss ZZ'')]"
    by (simp add: get_world_times_def arrow_to_def sample_parse_def sample_fmt_def
        tz_utc_def tz_fixed_def)
  have b: "map_of (get_world_times sample_parse sample_fmt (arrow_at 2024 2 7 12 0)
             [''UTC'', ''Invalid/Timezone'', ''Asia/Tokyo'']) ''Asia/Tokyo''
     = Some (sample_fmt \<lparr>wall = wall (arrow_at 2024 2 7 21 0),
                          tzinfo = tz_fixed ''Asia/Tokyo'' 32400000000\<rparr>
               ''YYYY-MM-DD HH:mm:ss ZZ'')"
    using t[THEN conjunct2, THEN conjunct2, THEN conjunct1] by (simp add: p w)
  have c: "timestamp_us \<lparr>wall = wall (arrow_at 2024 2 7 21 0),
                 tzinfo = tz_fixed ''Asia/Tokyo'' 32400000000\<rparr>
     = timestamp_us (arrow_at 2024 2 7 12 0)"
    using t[THEN conjunct2, THEN conjunct2, THEN conjunct2, rule_format,
        of "tz_fixed ''Asia/Tokyo'' 32400000000"]
    by (simp add: p w tz_fixed_consistent)
  show ?thesis by (intro conjI; fact)
qed

end
